theory Spec2Isabelle
  imports Complex_Main
begin

section \<open>Values shared by the packages\<close>

text \<open>
  Identifiers of items, batches and chunks are JavaScript strings. Exceptions of the
  source are values of \<open>error\<close>: reading a property of \<open>undefined\<close> raises a
  TypeError, the chunk sender throws its own ChunkedSendError, and an interception
  listener can reject.
\<close>

type_synonym ident = string

datatype error = TypeError | ChunkedSendError string | ListenerError string

text \<open>
  Option objects are JavaScript objects: a key is absent (\<open>None\<close>), present with the
  value \<open>undefined\<close> (\<open>Some Undefined\<close>), or present with another value.
\<close>

datatype jsval =
    Undefined
  | Null
  | Bool bool
  | Num real
  | Str string
  | Obj "string \<Rightarrow> jsval option"

type_synonym obj = "string \<Rightarrow> jsval option"

text \<open>The truth value JavaScript gives a value in a condition or under \<open>||\<close>.\<close>

fun truthy :: "jsval \<Rightarrow> bool" where
  "truthy Undefined = False"
| "truthy Null = False"
| "truthy (Bool b) = b"
| "truthy (Num n) = (n \<noteq> 0)"
| "truthy (Str s) = (s \<noteq> [])"
| "truthy (Obj m) = True"

text \<open>
  Modelled from the spec: \<open>getMerge\<close> and its default instance \<open>merge\<close> belong to
  the package @rpldy/shared, which is not among the sources. The spec names the two
  policies an override can follow: an explicitly unset value "still replaces the default"
  (explicit-undefined-overwrites), or it is "ignored". The sources select the first with
  \<open>getMerge({ undefinedOverwrites: true })\<close> (sendChunk.js, line 24); \<open>merge\<close> is
  the instance built without that option. Sources are merged into the target from left
  to right and a missing source is skipped. The spec describes the merge key by key; a
  value that is itself an object is taken as a whole.
\<close>

record MergeOptions =
  undefinedOverwrites :: bool

definition mergeSource :: "MergeOptions \<Rightarrow> obj \<Rightarrow> obj \<Rightarrow> obj" where
  "mergeSource options target source =
     (\<lambda>key. case source key of
         None \<Rightarrow> target key
       | Some prop \<Rightarrow>
           if prop \<noteq> Undefined \<or> undefinedOverwrites options then Some prop
           else target key)"

definition getMerge :: "MergeOptions \<Rightarrow> obj \<Rightarrow> obj option list \<Rightarrow> obj" where
  "getMerge options target sources =
     fold (\<lambda>source tgt. case source of None \<Rightarrow> tgt | Some src \<Rightarrow> mergeSource options tgt src)
       sources target"


definition mergeWithUndefined :: "obj \<Rightarrow> obj option list \<Rightarrow> obj" where
  "mergeWithUndefined = getMerge \<lparr>undefinedOverwrites = True\<rparr>"


section \<open>The queue state (core/uploader/src/queue)\<close>

text \<open>
  Modelled from the spec: the constants \<open>FILE_STATES\<close>, \<open>BATCH_STATES\<close>
  (@rpldy/shared) and \<open>ITEM_FINALIZE_STATES\<close> (../consts) are not among the sources.
  The constructors are the lifecycle states the spec lists; the finalize states are the
  four terminal item states of its glossary.
\<close>

datatype FILE_STATES =
    FILE_PENDING | FILE_ADDED | FILE_PROCESSING | FILE_UPLOADING
  | FILE_CANCELLED | FILE_FINISHED | FILE_ERROR | FILE_ABORTED

datatype BATCH_STATES =
    BATCH_PENDING | BATCH_ADDED | BATCH_PROCESSING | BATCH_UPLOADING
  | BATCH_CANCELLED | BATCH_FINISHED | BATCH_ERROR

definition ITEM_FINALIZE_STATES :: "FILE_STATES list" where
  "ITEM_FINALIZE_STATES = [FILE_FINISHED, FILE_ERROR, FILE_CANCELLED, FILE_ABORTED]"

text \<open>
  The progress counters are JavaScript numbers that the code only stores; a file is the
  sequence of its bytes. The optional \<open>recycled\<close> flag is false when absent.
\<close>

record BatchItem =
  item_id :: ident
  batchId :: ident
  item_state :: FILE_STATES
  loaded :: real
  completed :: real
  recycled :: bool
  previousBatch :: "ident option"
  item_file :: "nat list"

record Batch =
  batch_id :: ident
  batch_items :: "BatchItem list"
  batch_state :: BATCH_STATES

record BatchData =
  batch :: Batch
  batchOptions :: obj

text \<open>
  The state as queue/index.js creates it, lines 21-28; batchHelpers.js reads and updates
  the same fields. \<open>aborts\<close> keeps the ids that have an abort callback registered;
  the callbacks themselves play no part in the operations below.
\<close>

record State =
  itemQueue :: "ident list"
  currentBatch :: "ident option"
  batches :: "ident \<Rightarrow> BatchData option"
  items :: "ident \<Rightarrow> BatchItem option"
  activeIds :: "ident list"
  aborts :: "ident list"

text \<open>
  What \<open>queue.trigger\<close> and \<open>queue.runCancellable\<close> hand to the listeners: the event's
  name and its payload. The batch events carry the batch with its items replaced by the
  store's current items (\<open>undefined\<close>, here \<open>None\<close>, for an id the store does not
  track). \<open>unwrap\<close> (@rpldy/simple-state, not among the sources) gives the plain object
  behind a state proxy; on values it is the identity, and every payload below is a value
  of its own that later updates of the store cannot reach.
\<close>

datatype UPLOADER_EVENTS = BATCH_START | BATCH_FINISH | BATCH_CANCEL | ITEM_PROGRESS

record EventBatch =
  event_batch_id :: ident
  event_batch_state :: BATCH_STATES
  event_batch_items :: "BatchItem option list"

datatype payload =
    BatchPayload Batch
  | EventBatchPayload EventBatch
  | ItemPayload "BatchItem option"

type_synonym emitted = "UPLOADER_EVENTS \<times> payload"

subsection \<open>Array helpers of JavaScript\<close>

text \<open>
  \<open>indexOf\<close> and \<open>findIndex\<close> answer -1 when nothing is found; the source tests the
  answer with \<open>~index\<close>, which is falsy exactly for -1. \<open>splice(index, 1)\<close> removes
  one element; a negative index counts from the end.
\<close>

fun findIndex :: "('a \<Rightarrow> bool) \<Rightarrow> 'a list \<Rightarrow> int" where
  "findIndex p [] = -1"
| "findIndex p (x # xs) =
     (if p x then 0 else (let i = findIndex p xs in if i = -1 then -1 else i + 1))"

definition indexOf :: "'a list \<Rightarrow> 'a \<Rightarrow> int" where
  "indexOf xs x = findIndex (\<lambda>y. y = x) xs"

definition splice1 :: "int \<Rightarrow> 'a list \<Rightarrow> 'a list" where
  "splice1 index xs =
     (let n = int (length xs);
          st = (if index < 0 then max (n + index) 0 else min index n)
      in take (nat st) xs @ drop (Suc (nat st)) xs)"

subsection \<open>batchHelpers.js\<close>

definition getBatchFromState :: "State \<Rightarrow> ident \<Rightarrow> error + Batch" where
  "getBatchFromState state ident =
     (case batches state ident of None \<Rightarrow> Inl TypeError | Some batchData \<Rightarrow> Inr (batch batchData))"

definition getBatch :: "State \<Rightarrow> ident \<Rightarrow> error + Batch" where
  "getBatch queue ident = getBatchFromState queue ident"

definition getBatchDataFromItemId :: "State \<Rightarrow> ident \<Rightarrow> error + BatchData option" where
  "getBatchDataFromItemId queue itemId =
     (case items queue itemId of
        None \<Rightarrow> Inl TypeError
      | Some item \<Rightarrow> Inr (batches queue (batchId item)))"

definition getBatchFromItemId :: "State \<Rightarrow> ident \<Rightarrow> error + Batch" where
  "getBatchFromItemId queue itemId =
     (case getBatchDataFromItemId queue itemId of
        Inl e \<Rightarrow> Inl e
      | Inr None \<Rightarrow> Inl TypeError
      | Inr (Some batchData) \<Rightarrow> Inr (batch batchData))"

text \<open>The body of the \<open>forEach\<close> of removeBatchItems, lines 42-48, for one item id.\<close>

definition removeItem :: "ident \<Rightarrow> State \<Rightarrow> State" where
  "removeItem ident state =
     (let index = indexOf (itemQueue state) ident
      in state\<lparr>items := (items state)(ident := None),
               itemQueue := (if index \<noteq> -1 then splice1 index (itemQueue state)
                             else itemQueue state)\<rparr>)"

definition removeBatchItems :: "State \<Rightarrow> ident \<Rightarrow> error + State" where
  "removeBatchItems queue batchId' =
     (case getBatch queue batchId' of
        Inl e \<Rightarrow> Inl e
      | Inr b \<Rightarrow> Inr (fold (\<lambda>item. removeItem (item_id item)) (batch_items b) queue))"

definition removeBatch :: "State \<Rightarrow> ident \<Rightarrow> State" where
  "removeBatch queue batchId' = queue\<lparr>batches := (batches queue)(batchId' := None)\<rparr>"

definition isNewBatchStarting :: "State \<Rightarrow> ident \<Rightarrow> error + bool" where
  "isNewBatchStarting queue itemId =
     (case getBatchFromItemId queue itemId of
        Inl e \<Rightarrow> Inl e
      | Inr b \<Rightarrow> Inr (currentBatch queue \<noteq> Some (batch_id b)))"

text \<open>
  loadNewBatchForItem reads the item's batch at once, hands it to the cancellable
  batch-start interception and returns a promise. \<open>queue.runCancellable\<close> belongs to
  the event bus, an external collaborator; its answer, whether a listener cancelled, is
  the parameter \<open>isCancelled\<close>. \<open>loadNewBatchForItem_then\<close> is the
  callback of lines 84-92: it runs when the listeners have answered, on the store as it
  is then. \<open>loadNewBatchForItem\<close> is the whole operation for a listener answer
  \<open>isCancelled\<close> with no other update of the store in between (the single-writer
  discipline of the spec): the interception issued, the store afterwards and the value
  the promise resolves to.
\<close>

definition loadNewBatchForItem_then :: "Batch \<Rightarrow> bool \<Rightarrow> State \<Rightarrow> State \<times> bool" where
  "loadNewBatchForItem_then b isCancelled state =
     ((if \<not> isCancelled then state\<lparr>currentBatch := Some (batch_id b)\<rparr> else state),
      \<not> isCancelled)"

definition loadNewBatchForItem ::
  "State \<Rightarrow> ident \<Rightarrow> bool \<Rightarrow> error + (emitted \<times> State \<times> bool)" where
  "loadNewBatchForItem queue itemId isCancelled =
     (case getBatchFromItemId queue itemId of
        Inl e \<Rightarrow> Inl e
      | Inr b \<Rightarrow> Inr ((BATCH_START, BatchPayload b), loadNewBatchForItem_then b isCancelled queue))"

definition isBatchFinished :: "State \<Rightarrow> error + bool" where
  "isBatchFinished queue =
     (case itemQueue queue of
        [] \<Rightarrow> Inr True
      | itemId # _ \<Rightarrow> isNewBatchStarting queue itemId)"

definition triggerUploaderBatchEvent ::
  "State \<Rightarrow> ident \<Rightarrow> UPLOADER_EVENTS \<Rightarrow> error + emitted" where
  "triggerUploaderBatchEvent queue batchId' event =
     (case getBatchFromState queue batchId' of
        Inl e \<Rightarrow> Inl e
      | Inr b \<Rightarrow>
          Inr (event, EventBatchPayload
            \<lparr>event_batch_id = batch_id b,
             event_batch_state = batch_state b,
             event_batch_items = map (\<lambda>item. items queue (item_id item)) (batch_items b)\<rparr>))"

text \<open>
  The condition of line 105 tests \<open>batchId\<close> for truthiness: \<open>null\<close> and the empty
  string both count as no current batch.
\<close>

definition cleanUpFinishedBatch :: "State \<Rightarrow> error + (State \<times> emitted list)" where
  "cleanUpFinishedBatch queue =
     (case currentBatch queue of
        None \<Rightarrow> Inr (queue, [])
      | Some batchId' \<Rightarrow>
          if batchId' = [] \<or> batches queue batchId' = None then Inr (queue, [])
          else
            (case isBatchFinished queue of
               Inl e \<Rightarrow> Inl e
             | Inr False \<Rightarrow> Inr (queue, [])
             | Inr True \<Rightarrow>
                 (case triggerUploaderBatchEvent queue batchId' BATCH_FINISH of
                    Inl e \<Rightarrow> Inl e
                  | Inr ev \<Rightarrow>
                      (case removeBatchItems queue batchId' of
                         Inl e \<Rightarrow> Inl e
                       | Inr queue' \<Rightarrow> Inr (removeBatch queue' batchId', [ev])))))"

definition detachRecycledFromPreviousBatch :: "State \<Rightarrow> BatchItem \<Rightarrow> error + State" where
  "detachRecycledFromPreviousBatch queue item =
     (case previousBatch item of
        None \<Rightarrow> Inr queue
      | Some previous \<Rightarrow>
          if recycled item \<and> previous \<noteq> [] \<and> batches queue previous \<noteq> None then
            (case getBatchFromItemId queue (item_id item) of
               Inl e \<Rightarrow> Inl e
             | Inr owner \<Rightarrow>
                 if batch_id owner = previous then
                   (case batches queue (batch_id owner) of
                      None \<Rightarrow> Inl TypeError
                    | Some batchData \<Rightarrow>
                        let b = batch batchData;
                            index = findIndex (\<lambda>i. item_id i = item_id item) (batch_items b)
                        in Inr (queue\<lparr>batches := (batches queue)(batch_id owner \<mapsto>
                              batchData\<lparr>batch := b\<lparr>batch_items :=
                                (if index \<noteq> -1 then splice1 index (batch_items b)
                                 else batch_items b)\<rparr>\<rparr>)\<rparr>))
                 else Inr queue)
          else Inr queue)"



definition ensureNonUploadingBatchCleaned :: "State \<Rightarrow> ident \<Rightarrow> error + State" where
  "ensureNonUploadingBatchCleaned queue batchId' =
     (case getBatchFromState queue batchId' of
        Inl e \<Rightarrow> Inl e
      | Inr b \<Rightarrow>
          (case find (\<lambda>item. item_state item \<notin> set ITEM_FINALIZE_STATES) (batch_items b) of
             Some activeItem \<Rightarrow> Inr queue
           | None \<Rightarrow>
               (case removeBatchItems queue batchId' of
                  Inl e \<Rightarrow> Inl e
                | Inr queue' \<Rightarrow> Inr (removeBatch queue' batchId'))))"

subsection \<open>The progress handler of uploader/src/queue/index.js\<close>

text \<open>
  The handler registered for \<open>SENDER_EVENTS.PROGRESS\<close>, lines 53-65: the new store and
  the events triggered. The event carries what the new snapshot holds for the item's id.
  No statement of the handler can throw, so every branch answers \<open>Inr\<close>.
\<close>

definition onSenderProgress ::
  "State \<Rightarrow> BatchItem \<Rightarrow> real \<Rightarrow> real \<Rightarrow> error + (State \<times> emitted list)" where
  "onSenderProgress state item completed' loaded' =
     (case items state (item_id item) of
        None \<Rightarrow> Inr (state, [])
      | Some stateItem \<Rightarrow>
          let state' = state\<lparr>items := (items state)(item_id item \<mapsto>
                                stateItem\<lparr>loaded := loaded', completed := completed'\<rparr>)\<rparr>
          in Inr (state', [(ITEM_PROGRESS, ItemPayload (items state' (item_id item)))]))"

section \<open>The chunked sender (chunked-sender/src/chunkedSender/sendChunk.js)\<close>

text \<open>
  A blob is the sequence of its bytes; its \<open>size\<close> is the length. A chunk's data is
  absent (\<open>None\<close>) until it is sliced from the file; a blob, even an empty one, is
  truthy. The fields \<open>id\<close> and \<open>end\<close> of a chunk are \<open>chunk_id\<close> and
  \<open>chunk_end\<close> here. \<open>ChunkInfo\<close> holds the fields that
  \<open>pick(chunk, ["id", "start", "end", "index", "attempt"])\<close> copies into the event.
\<close>

type_synonym blob = "nat list"

record ChunkInfo =
  chunk_id :: ident
  start :: nat
  chunk_end :: nat
  index :: nat
  attempt :: nat

record Chunk = ChunkInfo +
  data :: "blob option"

text \<open>
  Modelled from the spec: \<open>pick\<close> (@rpldy/shared) is not among the sources. The
  interception carries "the chunk's metadata (id, byte range, index, attempt)": the five
  fields the call names.
\<close>

definition pick :: "Chunk \<Rightarrow> ChunkInfo" where
  "pick chunk =
     \<lparr>chunk_id = chunk_id chunk, start = start chunk, chunk_end = chunk_end chunk,
      index = index chunk, attempt = attempt chunk\<rparr>"

record ChunkedState =
  chunks :: "Chunk list"
  url :: jsval
  sendOptions :: obj

text \<open>
  Modelled from the spec: the methods \<open>getFreshChunk\<close> and \<open>updateChunk\<close> of the
  chunked state (getChunkedState, not among the sources). The spec has the sender
  "obtain the chunk's current (fresh) snapshot" and gives a chunk the identity \<open>id\<close>:
  \<open>getFreshChunk\<close> answers the chunk of the state with the argument's id
  (\<open>undefined\<close>, here \<open>None\<close>, when there is none), and \<open>updateChunk\<close> applies the
  updater to it.
\<close>

definition getFreshChunk :: "ChunkedState \<Rightarrow> Chunk \<Rightarrow> Chunk option" where
  "getFreshChunk chunkedState chunk =
     find (\<lambda>c. chunk_id c = chunk_id chunk) (chunks chunkedState)"

definition updateChunk :: "ChunkedState \<Rightarrow> Chunk \<Rightarrow> (Chunk \<Rightarrow> Chunk) \<Rightarrow> ChunkedState" where
  "updateChunk chunkedState chunk updater =
     chunkedState\<lparr>chunks := map (\<lambda>c. if chunk_id c = chunk_id chunk then updater c else c)
                                (chunks chunkedState)\<rparr>"

text \<open>
  Modelled from the spec: \<open>createBatchItem\<close> (@rpldy/shared) is not among the sources.
  The item made for a chunk is kept as the two arguments it is made from, the chunk's
  data and the chunk's id.
\<close>

record ChunkItem =
  chunkItem_file :: "blob option"
  chunkItem_batchId :: ident

definition createBatchItem :: "blob option \<Rightarrow> ident \<Rightarrow> ChunkItem" where
  "createBatchItem f batchId' = \<lparr>chunkItem_file = f, chunkItem_batchId = batchId'\<rparr>"

text \<open>
  The transport (@rpldy/sender, an external collaborator) is a parameter \<open>xhrSend\<close> of
  the operations: it receives the call and answers a send result. The type \<open>'w\<close> is the
  state of the transport, on which the result's \<open>abort\<close> acts. \<open>request\<close> is what the
  result's request promise settles to: \<open>Inl\<close> when it rejects. The progress callback
  of a call reports for the chunks of \<open>call_progressFor\<close>.
\<close>

record UploadData =
  upload_state :: FILE_STATES
  response :: jsval
  status :: nat

record 'w SendResult =
  request :: "error + UploadData"
  abort :: "'w \<Rightarrow> bool \<times> 'w"
  senderType :: string

record xhr_call =
  call_items :: "ChunkItem list"
  call_url :: jsval
  call_options :: obj
  call_progressFor :: "Chunk list"

text \<open>
  The payload of the chunk-start interception, lines 63-72 (the \<open>onProgress\<close> callback
  it also carries is left out), and what the listeners answer: \<open>false\<close> to skip the
  chunk, nothing, or an object that may hold a \<open>url\<close> and \<open>sendOptions\<close>. A key of
  the answer is absent (\<open>None\<close>) or holds a value, which for \<open>url\<close> can be an
  explicit \<open>undefined\<close>; \<open>sendOptions\<close> that are absent or \<open>undefined\<close> are
  \<open>None\<close>. The listeners can also reject.
\<close>

record ChunkStartEventData =
  event_item :: BatchItem
  event_chunk :: ChunkInfo
  event_chunkItem :: ChunkItem
  event_sendOptions :: obj
  event_url :: jsval
  event_chunkIndex :: int
  event_chunkCount :: nat

record UpdatedData =
  updated_url :: "jsval option"
  updated_sendOptions :: "obj option"

datatype updater_result = SkipChunk | NoUpdate | Updated UpdatedData

text \<open>
  Modelled from the spec: \<open>triggerUpdater\<close> (@rpldy/shared) is not among the sources.
  It is the updater variant of the event contract, "(eventName, payload) ->
  promise<updatedPayload | false>": the listeners of \<open>trigger\<close> receive the payload
  and what they answer is what the sender awaits.
\<close>

type_synonym trigger = "ChunkStartEventData \<Rightarrow> error + updater_result"

subsection \<open>Decimal numerals of template strings\<close>

fun show_nat :: "nat \<Rightarrow> string" where
  "show_nat n =
     (if n < 10 then [''0123456789'' ! n]
      else show_nat (n div 10) @ [''0123456789'' ! (n mod 10)])"

declare show_nat.simps [simp del]

definition show_int :: "int \<Rightarrow> string" where
  "show_int i = (if i < 0 then CHR ''-'' # show_nat (nat (- i)) else show_nat (nat i))"

subsection \<open>sendChunk.js\<close>

text \<open>
  \<open>data && `bytes ...`\<close> is the falsy data itself when there is none. The last byte
  is \<open>start + size - 1\<close>, computed on JavaScript numbers: below the start for an
  empty blob.
\<close>

definition getContentRangeValue :: "Chunk \<Rightarrow> blob option \<Rightarrow> BatchItem \<Rightarrow> jsval" where
  "getContentRangeValue chunk data' item =
     (case data' of
        None \<Rightarrow> Undefined
      | Some d \<Rightarrow>
          Str (''bytes '' @ show_int (int (start chunk)) @ ''-'' @
               show_int (int (start chunk) + int (length d) - 1) @ ''/'' @
               show_int (int (length (item_file item)))))"

definition getSkippedResult :: "'w SendResult" where
  "getSkippedResult =
     \<lparr>request = Inr \<lparr>upload_state = FILE_FINISHED,
                      response = Str ''skipping chunk as instructed by CHUNK_START handler'',
                      status = 200\<rparr>,
      abort = (\<lambda>w. (True, w)),
      senderType = ''chunk-skipped-sender''\<rparr>"

text \<open>
  The spread \<open>{...unwrap(x)}\<close> of the headers: the keys of an object, none for
  \<open>undefined\<close> (the headers are an object or absent by their type).
\<close>

definition spread :: "jsval option \<Rightarrow> obj" where
  "spread v = (case v of Some (Obj m) \<Rightarrow> m | _ \<Rightarrow> Map.empty)"

text \<open>The send options of lines 46-52 and the payload of lines 63-72.\<close>

definition chunkSendOptions :: "Chunk \<Rightarrow> ChunkedState \<Rightarrow> BatchItem \<Rightarrow> obj" where
  "chunkSendOptions chunk chunkedState item =
     (sendOptions chunkedState)(''headers'' \<mapsto>
        Obj ((spread (sendOptions chunkedState ''headers''))(''Content-Range'' \<mapsto>
               getContentRangeValue chunk (data chunk) item)))"

definition chunkStartEventData :: "Chunk \<Rightarrow> ChunkedState \<Rightarrow> BatchItem \<Rightarrow> ChunkStartEventData" where
  "chunkStartEventData chunk chunkedState item =
     \<lparr>event_item = item,
      event_chunk = pick chunk,
      event_chunkItem = createBatchItem (data chunk) (chunk_id chunk),
      event_sendOptions = chunkSendOptions chunk chunkedState item,
      event_url = url chunkedState,
      event_chunkIndex = indexOf (chunks chunkedState) chunk,
      event_chunkCount = length (chunks chunkedState)\<rparr>"

text \<open>
  uploadChunkWithUpdatedData is asynchronous: it issues the chunk-start interception,
  waits for the listeners and then skips or sends. The outcome records the interception
  issued, the calls made to the transport, and what the promise it returns settles to
  (\<open>Inl\<close> when the listeners reject).
\<close>

record 'w upload_outcome =
  interception :: ChunkStartEventData
  network :: "xhr_call list"
  settles_to :: "error + 'w SendResult"

definition uploadChunkWithUpdatedData ::
  "(xhr_call \<Rightarrow> 'w SendResult) \<Rightarrow> trigger \<Rightarrow> Chunk \<Rightarrow> ChunkedState \<Rightarrow> BatchItem \<Rightarrow>
     'w upload_outcome" where
  "uploadChunkWithUpdatedData xhrSend trigger' chunk chunkedState item =
     (let sendOptions' = chunkSendOptions chunk chunkedState item;
          chunkItem = createBatchItem (data chunk) (chunk_id chunk);
          eventData = chunkStartEventData chunk chunkedState item
      in case trigger' eventData of
           Inl e \<Rightarrow> \<lparr>interception = eventData, network = [], settles_to = Inl e\<rparr>
         | Inr SkipChunk \<Rightarrow>
             \<lparr>interception = eventData, network = [], settles_to = Inr getSkippedResult\<rparr>
         | Inr NoUpdate \<Rightarrow>
             (let call = \<lparr>call_items = [chunkItem],
                          call_url = url chunkedState,
                          call_options = mergeWithUndefined Map.empty [Some sendOptions', None],
                          call_progressFor = [chunk]\<rparr>
              in \<lparr>interception = eventData, network = [call], settles_to = Inr (xhrSend call)\<rparr>)
         | Inr (Updated updatedData) \<Rightarrow>
             (let call = \<lparr>call_items = [chunkItem],
                          call_url = (case updated_url updatedData of
                                        None \<Rightarrow> url chunkedState
                                      | Some u \<Rightarrow> if truthy u then u else url chunkedState),
                          call_options = mergeWithUndefined Map.empty
                                           [Some sendOptions', updated_sendOptions updatedData],
                          call_progressFor = [chunk]\<rparr>
              in \<lparr>interception = eventData, network = [call], settles_to = Inr (xhrSend call)\<rparr>))"

subsection \<open>Promises, as far as sendChunk uses them\<close>

text \<open>
  A promise is pending (\<open>settled = None\<close>) with the reactions registered on it by
  \<open>then\<close>, or settled. \<open>then\<close> on a pending promise queues the reaction; on a
  fulfilled one the reaction runs with the value (as a microtask, here at once); on a
  rejected one a fulfilment reaction never runs. Settling a pending promise runs the
  queued reactions in the order of their registration. Reactions act on the state
  \<open>'w\<close> of the transport.
\<close>

record ('a, 'w) promise =
  settled :: "(error + 'a) option"
  reactions :: "('a \<Rightarrow> 'w \<Rightarrow> 'w) list"

definition promise_then ::
  "('a, 'w) promise \<Rightarrow> ('a \<Rightarrow> 'w \<Rightarrow> 'w) \<Rightarrow> 'w \<Rightarrow> ('a, 'w) promise \<times> 'w" where
  "promise_then p onFulfilled w =
     (case settled p of
        None \<Rightarrow> (p\<lparr>reactions := reactions p @ [onFulfilled]\<rparr>, w)
      | Some (Inr v) \<Rightarrow> (p, onFulfilled v w)
      | Some (Inl e) \<Rightarrow> (p, w))"

definition promise_settle ::
  "('a, 'w) promise \<Rightarrow> error + 'a \<Rightarrow> 'w \<Rightarrow> ('a, 'w) promise \<times> 'w" where
  "promise_settle p outcome w =
     (case settled p of
        Some r \<Rightarrow> (p, w)
      | None \<Rightarrow>
          (\<lparr>settled = Some outcome, reactions = []\<rparr>,
           (case outcome of
              Inl e \<Rightarrow> w
            | Inr v \<Rightarrow> fold (\<lambda>reaction. reaction v) (reactions p) w)))"

text \<open>
  The \<open>abort\<close> of lines 113-116, on the promise \<open>chunkXhrRequest\<close> it closes over:
  it registers the forwarding reaction and answers true. The answer of the handle's own
  abort is dropped by the reaction.
\<close>

definition sendChunk_abort ::
  "('w SendResult, 'w) promise \<Rightarrow> 'w \<Rightarrow> bool \<times> ('w SendResult, 'w) promise \<times> 'w" where
  "sendChunk_abort chunkXhrRequest w =
     (let (p, w') = promise_then chunkXhrRequest (\<lambda>result w0. snd (abort result w0)) w
      in (True, p, w'))"

text \<open>
  The default export. It answers the chunked state it leaves behind and either the
  exception thrown synchronously to the caller (\<open>Inl\<close>) or the outcome of
  uploadChunkWithUpdatedData together with the send result handed back: its \<open>request\<close>
  follows \<open>chunkXhrRequest\<close> and then the request of the handle, its \<open>abort\<close> is
  \<open>sendChunk_abort\<close> on the promise \<open>chunkXhrRequest\<close>, which is pending when
  sendChunk returns and settles to \<open>settles_to\<close> of the outcome.
  \<open>getChunkDataFromFile\<close> (../utils, not among the sources) is a parameter: it answers
  the slice of the file or no data.
\<close>

definition sendChunk ::
  "(blob \<Rightarrow> nat \<Rightarrow> nat \<Rightarrow> blob option) \<Rightarrow> (xhr_call \<Rightarrow> 'w SendResult) \<Rightarrow> trigger \<Rightarrow>
     Chunk \<Rightarrow> ChunkedState \<Rightarrow> BatchItem \<Rightarrow>
     ChunkedState \<times>
       (error + 'w upload_outcome \<times> (('w SendResult, 'w) promise \<times> 'w) SendResult)" where
  "sendChunk getChunkDataFromFile xhrSend trigger' chunk chunkedState item =
     (let chunkedState' =
            (if data chunk = None then
               updateChunk chunkedState chunk
                 (\<lambda>fresh. fresh\<lparr>data := getChunkDataFromFile (item_file item) (start chunk)
                                            (chunk_end chunk)\<rparr>)
             else chunkedState)
      in case getFreshChunk chunkedState' chunk of
           None \<Rightarrow> (chunkedState', Inl TypeError)
         | Some fresh \<Rightarrow>
             if data fresh = None then
               (chunkedState', Inl (ChunkedSendError ''chunk failure - failed to slice''))
             else
               (let chunkXhrRequest =
                      uploadChunkWithUpdatedData xhrSend trigger' fresh chunkedState' item
                in (chunkedState',
                    Inr (chunkXhrRequest,
                         \<lparr>request = (case settles_to chunkXhrRequest of
                                       Inl e \<Rightarrow> Inl e
                                     | Inr result \<Rightarrow> request result),
                          abort = (\<lambda>(p, w). let (r, p', w') = sendChunk_abort p w in (r, (p', w'))),
                          senderType = ''chunk-passthrough-sender''\<rparr>))))"

section \<open>Example stores\<close>

text \<open>Concrete stores on which the theorems below are run.\<close>

definition mkItem :: "ident \<Rightarrow> ident \<Rightarrow> FILE_STATES \<Rightarrow> BatchItem" where
  "mkItem i b st =
     \<lparr>item_id = i, batchId = b, item_state = st, loaded = 0, completed = 0,
      recycled = False, previousBatch = None, item_file = []\<rparr>"

definition mkBatchData :: "ident \<Rightarrow> BatchItem list \<Rightarrow> BATCH_STATES \<Rightarrow> BatchData" where
  "mkBatchData b its st =
     \<lparr>batch = \<lparr>batch_id = b, batch_items = its, batch_state = st\<rparr>, batchOptions = Map.empty\<rparr>"

text \<open>
  The id of an earlier batch is still in \<open>currentBatch\<close> while the head of the pending
  sequence belongs to the next batch.
\<close>

definition staleStore :: State where
  "staleStore =
     \<lparr>itemQueue = [''item-3''],
      currentBatch = Some ''batch-1'',
      batches = [''batch-2'' \<mapsto>
                   mkBatchData ''batch-2'' [mkItem ''item-3'' ''batch-2'' FILE_ADDED] BATCH_ADDED],
      items = [''item-3'' \<mapsto> mkItem ''item-3'' ''batch-2'' FILE_ADDED],
      activeIds = [], aborts = []\<rparr>"

text \<open>Both items of the current batch have failed and nothing is pending.\<close>

definition failedStore :: State where
  "failedStore =
     \<lparr>itemQueue = [],
      currentBatch = Some ''batch-1'',
      batches = [''batch-1'' \<mapsto>
                   mkBatchData ''batch-1''
                     [mkItem ''item-1'' ''batch-1'' FILE_ERROR, mkItem ''item-2'' ''batch-1'' FILE_ERROR]
                     BATCH_UPLOADING],
      items = [''item-1'' \<mapsto> mkItem ''item-1'' ''batch-1'' FILE_ERROR,
               ''item-2'' \<mapsto> mkItem ''item-2'' ''batch-1'' FILE_ERROR],
      activeIds = [], aborts = []\<rparr>"

text \<open>The store \<open>failedStore\<close> after its batch has been purged.\<close>

definition purgedStore :: State where
  "purgedStore =
     \<lparr>itemQueue = [], currentBatch = Some ''batch-1'', batches = Map.empty, items = Map.empty,
      activeIds = [], aborts = []\<rparr>"

text \<open>
  The current batch has finished its only item; the head of the pending sequence belongs
  to the next batch.
\<close>

definition finishedStore :: State where
  "finishedStore =
     \<lparr>itemQueue = [''item-3''],
      currentBatch = Some ''batch-1'',
      batches = [''batch-1'' \<mapsto>
                   mkBatchData ''batch-1'' [mkItem ''item-1'' ''batch-1'' FILE_UPLOADING] BATCH_UPLOADING,
                 ''batch-2'' \<mapsto>
                   mkBatchData ''batch-2'' [mkItem ''item-3'' ''batch-2'' FILE_ADDED] BATCH_ADDED],
      items = [''item-1'' \<mapsto> mkItem ''item-1'' ''batch-1'' FILE_FINISHED,
               ''item-3'' \<mapsto> mkItem ''item-3'' ''batch-2'' FILE_ADDED],
      activeIds = [], aborts = []\<rparr>"

text \<open>
  An aborted item is resubmitted: \<open>recycledItem\<close> is the new item, with the id of the
  old one and a reference to its former batch. In \<open>recycledStore\<close> the store's record
  of that id still belongs to the former batch; in \<open>reattachedStore\<close> it already belongs
  to the new batch, while the former batch still lists the item.
\<close>

definition recycledItem :: BatchItem where
  "recycledItem =
     (mkItem ''item-1'' ''batch-2'' FILE_ADDED)\<lparr>recycled := True, previousBatch := Some ''batch-1''\<rparr>"

definition recycledStore :: State where
  "recycledStore =
     \<lparr>itemQueue = [],
      currentBatch = Some ''batch-1'',
      batches = [''batch-1'' \<mapsto>
                   mkBatchData ''batch-1''
                     [mkItem ''item-1'' ''batch-1'' FILE_ABORTED, mkItem ''item-2'' ''batch-1'' FILE_UPLOADING]
                     BATCH_UPLOADING],
      items = [''item-1'' \<mapsto> mkItem ''item-1'' ''batch-1'' FILE_ABORTED,
               ''item-2'' \<mapsto> mkItem ''item-2'' ''batch-1'' FILE_UPLOADING],
      activeIds = [''item-2''], aborts = []\<rparr>"

definition reattachedStore :: State where
  "reattachedStore =
     \<lparr>itemQueue = [''item-1''],
      currentBatch = Some ''batch-1'',
      batches = [''batch-1'' \<mapsto>
                   mkBatchData ''batch-1''
                     [mkItem ''item-1'' ''batch-1'' FILE_ABORTED, mkItem ''item-2'' ''batch-1'' FILE_UPLOADING]
                     BATCH_UPLOADING,
                 ''batch-2'' \<mapsto> mkBatchData ''batch-2'' [recycledItem] BATCH_ADDED],
      items = [''item-1'' \<mapsto> recycledItem,
               ''item-2'' \<mapsto> mkItem ''item-2'' ''batch-1'' FILE_UPLOADING],
      activeIds = [''item-2''], aborts = []\<rparr>"




text \<open>
  A file of ten bytes in two chunks, the second already sliced on an earlier attempt; a
  slicer that cuts the byte range and one that yields no data; a transport whose state
  counts the aborts it has received.
\<close>

definition exampleFile :: blob where
  "exampleFile = [10, 11, 12, 13, 14, 15, 16, 17, 18, 19]"

definition uploadingItem :: BatchItem where
  "uploadingItem = (mkItem ''item-1'' ''batch-1'' FILE_UPLOADING)\<lparr>item_file := exampleFile\<rparr>"

definition sliceBytes :: "blob \<Rightarrow> nat \<Rightarrow> nat \<Rightarrow> blob option" where
  "sliceBytes f s e = Some (take (e - s) (drop s f))"

definition sliceNothing :: "blob \<Rightarrow> nat \<Rightarrow> nat \<Rightarrow> blob option" where
  "sliceNothing f s e = None"

definition firstChunk :: Chunk where
  "firstChunk = \<lparr>chunk_id = ''chunk-0'', start = 0, chunk_end = 4, index = 0, attempt = 0, data = None\<rparr>"

definition secondChunk :: Chunk where
  "secondChunk =
     \<lparr>chunk_id = ''chunk-1'', start = 4, chunk_end = 8, index = 1, attempt = 1,
      data = Some [14, 15, 16, 17]\<rparr>"

definition chunkedExample :: ChunkedState where
  "chunkedExample =
     \<lparr>chunks = [firstChunk, secondChunk], url = Str ''https://server/upload'',
      sendOptions = [''method'' \<mapsto> Str ''POST'']\<rparr>"

definition exampleXhrSend :: "xhr_call \<Rightarrow> nat SendResult" where
  "exampleXhrSend call =
     \<lparr>request = Inr \<lparr>upload_state = FILE_FINISHED, response = Str ''ok'', status = 200\<rparr>,
      abort = (\<lambda>aborted. (True, Suc aborted)),
      senderType = ''xhr''\<rparr>"


text \<open>
  A handle of the example transport, and the promise \<open>chunkXhrRequest\<close> as it is when
  sendChunk returns: pending, with no reaction that acts on the transport.
\<close>

definition exampleHandle :: "nat SendResult" where
  "exampleHandle =
     exampleXhrSend \<lparr>call_items = [], call_url = Str ''https://server/upload'',
                      call_options = Map.empty, call_progressFor = []\<rparr>"

definition pendingRequest :: "(nat SendResult, nat) promise" where
  "pendingRequest = \<lparr>settled = None, reactions = []\<rparr>"

section \<open>Array helpers: what the index tests compute\<close>

lemma findIndex_bounds:
  "findIndex p xs = -1 \<or> (0 \<le> findIndex p xs \<and> findIndex p xs < int (length xs))"
  by (induction xs) (auto simp: Let_def)

lemma findIndex_ge: "- 1 \<le> findIndex p xs"
  using findIndex_bounds [of p xs] by auto

lemma splice1_Cons:
  assumes "0 \<le> i"
  shows "splice1 (i + 1) (x # xs) = x # splice1 i xs"
proof -
  define st where "st = min i (int (length xs))"
  have st0: "0 \<le> st" using assms by (simp add: st_def)
  have m: "min (i + 1) (int (length (x # xs))) = st + 1" by (simp add: st_def min_def)
  have n: "nat (st + 1) = Suc (nat st)" using st0 by (simp add: nat_add_distrib)
  have a: "splice1 (i + 1) (x # xs) = take (nat (st + 1)) (x # xs) @ drop (Suc (nat (st + 1))) (x # xs)"
    using assms m unfolding splice1_def Let_def by simp
  have b: "splice1 i xs = take (nat st) xs @ drop (Suc (nat st)) xs"
    using assms unfolding splice1_def Let_def st_def by simp
  show ?thesis unfolding a b n by simp
qed

lemma splice1_zero: "splice1 0 (x # xs) = xs"
  by (simp add: splice1_def)

lemma splice_findIndex:
  "(if findIndex p xs \<noteq> -1 then splice1 (findIndex p xs) xs else xs) =
     takeWhile (\<lambda>x. \<not> p x) xs @ drop 1 (dropWhile (\<lambda>x. \<not> p x) xs)"
proof (induction xs)
  case Nil
  then show ?case by simp
next
  case (Cons a xs)
  show ?case
  proof (cases "p a")
    case True
    then show ?thesis by (simp add: splice1_zero)
  next
    case False
    have ge: "- 1 \<le> findIndex p xs" by (rule findIndex_ge)
    show ?thesis
    proof (cases "findIndex p xs = -1")
      case True
      with False Cons show ?thesis by (simp add: Let_def)
    next
      case nf: False
      with ge have nn: "0 \<le> findIndex p xs" by linarith
      have s: "splice1 (findIndex p xs + 1) (a # xs) = a # splice1 (findIndex p xs) xs"
        using nn by (rule splice1_Cons)
      have ne: "findIndex p xs + 1 \<noteq> -1" using ge by linarith
      have f: "findIndex p (a # xs) = findIndex p xs + 1"
        using False nf by (simp add: Let_def)
      have "splice1 (findIndex p xs) xs =
          takeWhile (\<lambda>x. \<not> p x) xs @ drop 1 (dropWhile (\<lambda>x. \<not> p x) xs)"
        using Cons nf by simp
      then show ?thesis unfolding f using ne s False by simp
    qed
  qed
qed

lemma splice_indexOf:
  "(if indexOf xs x \<noteq> -1 then splice1 (indexOf xs x) xs else xs) = remove1 x xs"
proof -
  have "takeWhile (\<lambda>y. \<not> y = x) xs @ drop 1 (dropWhile (\<lambda>y. \<not> y = x) xs) = remove1 x xs"
    by (induction xs) auto
  then show ?thesis unfolding indexOf_def using splice_findIndex [of "\<lambda>y. y = x" xs] by simp
qed

lemma removeItem_eq:
  "removeItem i state = state\<lparr>items := (items state)(i := None), itemQueue := remove1 i (itemQueue state)\<rparr>"
  using splice_indexOf [of "itemQueue state" i] by (simp add: removeItem_def Let_def)


lemma isBatchFinished_iff:
  "(isBatchFinished queue = Inr True) =
     (itemQueue queue = [] \<or>
      (\<exists>head rest item batchData. itemQueue queue = head # rest \<and>
          items queue head = Some item \<and> batches queue (batchId item) = Some batchData \<and>
          currentBatch queue \<noteq> Some (batch_id (batch batchData))))"
  by (auto simp: isBatchFinished_def isNewBatchStarting_def getBatchFromItemId_def
        getBatchDataFromItemId_def split: list.splits option.splits sum.splits)

section \<open>Purging a batch\<close>

lemma fold_removeItem_eq:
  "fold (\<lambda>item. removeItem (item_id item)) its state =
     state\<lparr>items := (\<lambda>i. if i \<in> item_id ` set its then None else items state i),
           itemQueue := fold remove1 (map item_id its) (itemQueue state)\<rparr>"
proof (induction its arbitrary: state)
  case Nil
  then show ?case by simp
next
  case (Cons a its)
  have "fold (\<lambda>item. removeItem (item_id item)) (a # its) state =
        fold (\<lambda>item. removeItem (item_id item)) its (removeItem (item_id a) state)"
    by simp
  also have "\<dots> = (removeItem (item_id a) state)
      \<lparr>items := (\<lambda>i. if i \<in> item_id ` set its then None
                         else items (removeItem (item_id a) state) i),
       itemQueue := fold remove1 (map item_id its) (itemQueue (removeItem (item_id a) state))\<rparr>"
    by (rule Cons.IH)
  also have "\<dots> = state\<lparr>items := (\<lambda>i. if i \<in> item_id ` set (a # its) then None else items state i),
           itemQueue := fold remove1 (map item_id (a # its)) (itemQueue state)\<rparr>"
    by (simp add: removeItem_eq fun_eq_iff)
  finally show ?case .
qed

lemma removeBatchItems_eq:
  assumes "batches queue b = Some batchData"
  shows "removeBatchItems queue b =
     Inr (queue\<lparr>items := (\<lambda>i. if i \<in> item_id ` set (batch_items (batch batchData)) then None
                                else items queue i),
               itemQueue := fold remove1 (map item_id (batch_items (batch batchData)))
                              (itemQueue queue)\<rparr>)"
  using assms
  by (simp add: removeBatchItems_def getBatch_def getBatchFromState_def fold_removeItem_eq)

lemma cleanUpFinishedBatch_fires:
  assumes "currentBatch queue = Some b" and "b \<noteq> []" and "batches queue b = Some batchData"
      and "isBatchFinished queue = Inr True"
  shows "cleanUpFinishedBatch queue =
     Inr (queue\<lparr>items := (\<lambda>i. if i \<in> item_id ` set (batch_items (batch batchData)) then None
                                else items queue i),
               itemQueue := fold remove1 (map item_id (batch_items (batch batchData)))
                              (itemQueue queue),
               batches := (batches queue)(b := None)\<rparr>,
          [(BATCH_FINISH, EventBatchPayload
             \<lparr>event_batch_id = batch_id (batch batchData),
              event_batch_state = batch_state (batch batchData),
              event_batch_items =
                map (\<lambda>item. items queue (item_id item)) (batch_items (batch batchData))\<rparr>)])"
  using assms
  by (simp add: cleanUpFinishedBatch_def triggerUploaderBatchEvent_def getBatchFromState_def
        removeBatchItems_eq removeBatch_def)


lemma ensureNonUploadingBatchCleaned_purges:
  assumes "batches queue b = Some batchData"
      and "\<forall>item \<in> set (batch_items (batch batchData)). item_state item \<in> set ITEM_FINALIZE_STATES"
  shows "ensureNonUploadingBatchCleaned queue b =
     Inr (queue\<lparr>items := (\<lambda>i. if i \<in> item_id ` set (batch_items (batch batchData)) then None
                                else items queue i),
               itemQueue := fold remove1 (map item_id (batch_items (batch batchData)))
                              (itemQueue queue),
               batches := (batches queue)(b := None)\<rparr>)"
proof -
  have "find (\<lambda>item. item_state item \<notin> set ITEM_FINALIZE_STATES) (batch_items (batch batchData)) = None"
    using assms(2) by (simp add: find_None_iff)
  then show ?thesis using assms(1)
    by (simp add: ensureNonUploadingBatchCleaned_def getBatchFromState_def removeBatchItems_eq
          removeBatch_def)
qed

lemma cleanUpFinishedBatch_currentBatch:
  assumes "cleanUpFinishedBatch queue = Inr (queue', events)"
  shows "currentBatch queue' = currentBatch queue"
proof (cases "currentBatch queue")
  case None
  then show ?thesis using assms by (simp add: cleanUpFinishedBatch_def)
next
  case (Some b)
  show ?thesis
  proof (cases "b \<noteq> [] \<and> batches queue b \<noteq> None \<and> isBatchFinished queue = Inr True")
    case True
    then obtain batchData where "batches queue b = Some batchData" by auto
    with True Some assms show ?thesis by (auto simp: cleanUpFinishedBatch_fires)
  next
    case False
    then have "cleanUpFinishedBatch queue = Inr (queue, []) \<or> (\<exists>e. cleanUpFinishedBatch queue = Inl e)"
      using Some by (auto simp: cleanUpFinishedBatch_def split: sum.splits bool.splits)
    with assms show ?thesis by auto
  qed
qed

lemma ensureNonUploadingBatchCleaned_currentBatch:
  assumes "ensureNonUploadingBatchCleaned queue b = Inr queue'"
  shows "currentBatch queue' = currentBatch queue"
proof (cases "batches queue b")
  case None
  then show ?thesis using assms
    by (simp add: ensureNonUploadingBatchCleaned_def getBatchFromState_def)
next
  case (Some batchData)
  then show ?thesis using assms
    by (auto simp: ensureNonUploadingBatchCleaned_def getBatchFromState_def removeBatchItems_eq
          removeBatch_def split: option.splits)
qed

section \<open>The modelled merge\<close>






section \<open>Batch lifecycle: preparePendingForUpload\<close>




section \<open>Batch lifecycle: loadNewBatchForItem\<close>

text \<open>
  Claim C4, as the code has it. For an item the store tracks whose batch is in the store,
  loadNewBatchForItem issues the cancellable batch-start interception carrying the item's
  batch. When the listeners cancel, the store is left as it is, so \<open>currentBatch\<close>
  keeps its prior value (unset only if it was unset before), and the operation answers
  false; otherwise \<open>currentBatch\<close> becomes the id of the item's batch and the operation
  answers true. The callback does the same on whatever store it finds when the listeners
  answer.
\<close>

theorem loadNewBatchForItem_gate:
  assumes "items queue itemId = Some item"
      and "batches queue (batchId item) = Some batchData"
  shows "loadNewBatchForItem queue itemId True =
           Inr ((BATCH_START, BatchPayload (batch batchData)), queue, False) \<and>
         loadNewBatchForItem queue itemId False =
           Inr ((BATCH_START, BatchPayload (batch batchData)),
                queue\<lparr>currentBatch := Some (batch_id (batch batchData))\<rparr>, True) \<and>
         (\<forall>state. loadNewBatchForItem_then (batch batchData) True state = (state, False)) \<and>
         (\<forall>state. loadNewBatchForItem_then (batch batchData) False state =
            (state\<lparr>currentBatch := Some (batch_id (batch batchData))\<rparr>, True))"
  using assms
  by (simp add: loadNewBatchForItem_def loadNewBatchForItem_then_def getBatchFromItemId_def
        getBatchDataFromItemId_def)

theorem loadNewBatchForItem_gate_witness:
  "loadNewBatchForItem staleStore ''item-3'' False =
     Inr ((BATCH_START,
           BatchPayload \<lparr>batch_id = ''batch-2'',
                         batch_items = [mkItem ''item-3'' ''batch-2'' FILE_ADDED],
                         batch_state = BATCH_ADDED\<rparr>),
          staleStore\<lparr>currentBatch := Some ''batch-2''\<rparr>, True) \<and>
   loadNewBatchForItem staleStore ''item-3'' True =
     Inr ((BATCH_START,
           BatchPayload \<lparr>batch_id = ''batch-2'',
                         batch_items = [mkItem ''item-3'' ''batch-2'' FILE_ADDED],
                         batch_state = BATCH_ADDED\<rparr>),
          staleStore, False)"
  using loadNewBatchForItem_gate [of staleStore "''item-3''" "mkItem ''item-3'' ''batch-2'' FILE_ADDED"
      "mkBatchData ''batch-2'' [mkItem ''item-3'' ''batch-2'' FILE_ADDED] BATCH_ADDED"]
  by (simp add: staleStore_def mkItem_def mkBatchData_def)

text \<open>
  The claim as the spec words it has \<open>currentBatch\<close> unset after a cancellation
  whatever it held before. In \<open>staleStore\<close> it holds the id of the previous batch; the
  listeners cancel the start of the next batch, and the store that results is
  \<open>staleStore\<close> itself, with that id still in \<open>currentBatch\<close>. For an id the store
  does not track, the operation throws before any interception is issued.
\<close>

theorem loadNewBatchForItem_cancel_counterexample:
  "currentBatch staleStore = Some ''batch-1'' \<and>
   loadNewBatchForItem staleStore ''item-3'' True =
     Inr ((BATCH_START,
           BatchPayload \<lparr>batch_id = ''batch-2'',
                         batch_items = [mkItem ''item-3'' ''batch-2'' FILE_ADDED],
                         batch_state = BATCH_ADDED\<rparr>),
          staleStore, False) \<and>
   loadNewBatchForItem staleStore ''item-9'' True = Inl TypeError"
  by (simp add: loadNewBatchForItem_def loadNewBatchForItem_then_def getBatchFromItemId_def
        getBatchDataFromItemId_def staleStore_def mkItem_def mkBatchData_def)

section \<open>Batch lifecycle: cleanUpFinishedBatch\<close>




section \<open>Batch lifecycle: cleanup and \<open>currentBatch\<close>\<close>

lemma failedStore_purged:
  "failedStore\<lparr>items := (\<lambda>i. if i \<in> item_id ` set
                [mkItem ''item-1'' ''batch-1'' FILE_ERROR, mkItem ''item-2'' ''batch-1'' FILE_ERROR]
              then None else items failedStore i),
            itemQueue := fold remove1 (map item_id
                [mkItem ''item-1'' ''batch-1'' FILE_ERROR, mkItem ''item-2'' ''batch-1'' FILE_ERROR])
                (itemQueue failedStore),
            batches := (batches failedStore)(''batch-1'' := None)\<rparr> = purgedStore"
  by (auto simp: failedStore_def purgedStore_def mkItem_def fun_eq_iff)

text \<open>
  Claim C3, as the code has it. The cleanup operations never write \<open>currentBatch\<close>:
  whatever cleanUpFinishedBatch or ensureNonUploadingBatchCleaned return, \<open>currentBatch\<close>
  is what it was before. When every item of a batch's item list has reached a finalize
  state (finished, error, cancelled or aborted, the case of all items failed included),
  ensureNonUploadingBatchCleaned removes the batch's items and its entry from the store;
  when the current batch is finished, cleanUpFinishedBatch removes them too, and
  \<open>currentBatch\<close> still holds the id of the purged batch, which then names no batch of
  the store.
\<close>

theorem cleanup_keeps_currentBatch:
  "(cleanUpFinishedBatch queue = Inr (queue', events) \<longrightarrow>
      currentBatch queue' = currentBatch queue) \<and>
   (ensureNonUploadingBatchCleaned queue b = Inr queue' \<longrightarrow>
      currentBatch queue' = currentBatch queue) \<and>
   (batches queue b = Some batchData \<and>
    (\<forall>item \<in> set (batch_items (batch batchData)). item_state item \<in> set ITEM_FINALIZE_STATES) \<longrightarrow>
      ensureNonUploadingBatchCleaned queue b =
        Inr (queue\<lparr>items := (\<lambda>i. if i \<in> item_id ` set (batch_items (batch batchData)) then None
                                   else items queue i),
                  itemQueue := fold remove1 (map item_id (batch_items (batch batchData)))
                                 (itemQueue queue),
                  batches := (batches queue)(b := None)\<rparr>)) \<and>
   (currentBatch queue = Some b \<and> b \<noteq> [] \<and> batches queue b = Some batchData \<and>
    isBatchFinished queue = Inr True \<longrightarrow>
      (\<exists>purged event. cleanUpFinishedBatch queue = Inr (purged, [event]) \<and>
          batches purged b = None \<and> currentBatch purged = Some b))"
proof -
  have 1: "cleanUpFinishedBatch queue = Inr (queue', events) \<longrightarrow>
      currentBatch queue' = currentBatch queue"
    by (auto dest: cleanUpFinishedBatch_currentBatch)
  have 2: "ensureNonUploadingBatchCleaned queue b = Inr queue' \<longrightarrow>
      currentBatch queue' = currentBatch queue"
    by (auto dest: ensureNonUploadingBatchCleaned_currentBatch)
  have 4: "currentBatch queue = Some b \<and> b \<noteq> [] \<and> batches queue b = Some batchData \<and>
    isBatchFinished queue = Inr True \<longrightarrow>
      (\<exists>purged event. cleanUpFinishedBatch queue = Inr (purged, [event]) \<and>
          batches purged b = None \<and> currentBatch purged = Some b)"
    by (auto simp: cleanUpFinishedBatch_fires)
  from 1 2 4 show ?thesis
    using ensureNonUploadingBatchCleaned_purges [of queue b batchData] by blast
qed

text \<open>
  On \<open>failedStore\<close>, where both items of the current batch have failed,
  ensureNonUploadingBatchCleaned leaves \<open>purgedStore\<close>.
\<close>

theorem cleanup_keeps_currentBatch_witness:
  "ensureNonUploadingBatchCleaned failedStore ''batch-1'' = Inr purgedStore \<and>
   currentBatch purgedStore = currentBatch failedStore \<and>
   currentBatch failedStore = Some ''batch-1'' \<and>
   batches purgedStore ''batch-1'' = None"
proof -
  have b: "batches failedStore ''batch-1'' =
     Some (mkBatchData ''batch-1''
        [mkItem ''item-1'' ''batch-1'' FILE_ERROR, mkItem ''item-2'' ''batch-1'' FILE_ERROR]
        BATCH_UPLOADING)"
    by (simp add: failedStore_def)
  have f: "\<forall>item \<in> set (batch_items (batch (mkBatchData ''batch-1''
        [mkItem ''item-1'' ''batch-1'' FILE_ERROR, mkItem ''item-2'' ''batch-1'' FILE_ERROR]
        BATCH_UPLOADING))). item_state item \<in> set ITEM_FINALIZE_STATES"
    by (simp add: mkBatchData_def mkItem_def ITEM_FINALIZE_STATES_def)
  have e: "ensureNonUploadingBatchCleaned failedStore ''batch-1'' = Inr purgedStore"
    using cleanup_keeps_currentBatch [of failedStore purgedStore "[]" "''batch-1''"
        "mkBatchData ''batch-1''
          [mkItem ''item-1'' ''batch-1'' FILE_ERROR, mkItem ''item-2'' ''batch-1'' FILE_ERROR]
          BATCH_UPLOADING"] b f
    by (simp add: mkBatchData_def failedStore_purged [simplified])
  have c: "currentBatch purgedStore = currentBatch failedStore"
    using cleanup_keeps_currentBatch [of failedStore purgedStore "[]" "''batch-1''"] e by blast
  show ?thesis using e c by (simp add: failedStore_def purgedStore_def)
qed

text \<open>
  The claim as the spec words it has \<open>currentBatch\<close> no longer refer to the batch once
  cleanup has run. On \<open>failedStore\<close> cleanUpFinishedBatch emits the batch-finish event
  and purges the batch, and \<open>currentBatch\<close> of the store that results is still the id
  of that batch.
\<close>

theorem cleanup_currentBatch_counterexample:
  "currentBatch failedStore = Some ''batch-1'' \<and>
   cleanUpFinishedBatch failedStore =
     Inr (purgedStore,
          [(BATCH_FINISH, EventBatchPayload
              \<lparr>event_batch_id = ''batch-1'', event_batch_state = BATCH_UPLOADING,
               event_batch_items = [Some (mkItem ''item-1'' ''batch-1'' FILE_ERROR),
                                    Some (mkItem ''item-2'' ''batch-1'' FILE_ERROR)]\<rparr>)]) \<and>
   currentBatch purgedStore = Some ''batch-1'' \<and>
   batches purgedStore ''batch-1'' = None"
proof -
  have c: "currentBatch failedStore = Some ''batch-1''" by (simp add: failedStore_def)
  have b: "batches failedStore ''batch-1'' =
     Some (mkBatchData ''batch-1''
        [mkItem ''item-1'' ''batch-1'' FILE_ERROR, mkItem ''item-2'' ''batch-1'' FILE_ERROR]
        BATCH_UPLOADING)"
    by (simp add: failedStore_def)
  have f: "isBatchFinished failedStore = Inr True"
    by (simp add: isBatchFinished_def failedStore_def)
  have e: "map (\<lambda>item. items failedStore (item_id item))
             [mkItem ''item-1'' ''batch-1'' FILE_ERROR, mkItem ''item-2'' ''batch-1'' FILE_ERROR] =
           [Some (mkItem ''item-1'' ''batch-1'' FILE_ERROR), Some (mkItem ''item-2'' ''batch-1'' FILE_ERROR)]"
    by (simp add: failedStore_def mkItem_def)
  have "cleanUpFinishedBatch failedStore =
     Inr (purgedStore,
          [(BATCH_FINISH, EventBatchPayload
              \<lparr>event_batch_id = ''batch-1'', event_batch_state = BATCH_UPLOADING,
               event_batch_items = [Some (mkItem ''item-1'' ''batch-1'' FILE_ERROR),
                                    Some (mkItem ''item-2'' ''batch-1'' FILE_ERROR)]\<rparr>)])"
    using cleanUpFinishedBatch_fires [OF c _ b f]
    by (simp add: mkBatchData_def failedStore_purged [simplified] e [simplified])
  then show ?thesis using c by (simp add: purgedStore_def)
qed

section \<open>Batch lifecycle: detachRecycledFromPreviousBatch\<close>

text \<open>
  Claim C5, as the code has it. For an item with \<open>recycled\<close> set and a non-empty
  \<open>previousBatch\<close> id that names a batch of the store, whose id the store tracks with a
  record that still belongs to that previous batch (the batch found through the stored
  item has the previous batch's id, the test of line 137),
  detachRecycledFromPreviousBatch removes the first entry with the item's id from the
  previous batch's item list and changes nothing else; a list without such an entry
  stays as it is. When the item is not recycled, has no \<open>previousBatch\<close>, the previous
  batch is not in the store, or the store's record of the item's id belongs to another
  batch, the state is unchanged.
\<close>

theorem detachRecycledFromPreviousBatch_detaches:
  "(recycled item \<and> previousBatch item = Some previous \<and> previous \<noteq> [] \<and>
    batches queue previous = Some batchData \<and>
    items queue (item_id item) = Some stored \<and>
    batches queue (batchId stored) = Some ownerData \<and>
    batch_id (batch ownerData) = previous \<longrightarrow>
      detachRecycledFromPreviousBatch queue item =
        Inr (queue\<lparr>batches := (batches queue)(previous \<mapsto>
               batchData\<lparr>batch := (batch batchData)\<lparr>batch_items :=
                  takeWhile (\<lambda>i. item_id i \<noteq> item_id item) (batch_items (batch batchData)) @
                  drop 1 (dropWhile (\<lambda>i. item_id i \<noteq> item_id item)
                            (batch_items (batch batchData)))\<rparr>\<rparr>)\<rparr>)) \<and>
   (\<not> recycled item \<or> previousBatch item = None \<or> previousBatch item = Some [] \<or>
    (\<exists>p. previousBatch item = Some p \<and> batches queue p = None) \<or>
    (\<exists>p stored ownerData. previousBatch item = Some p \<and>
        items queue (item_id item) = Some stored \<and>
        batches queue (batchId stored) = Some ownerData \<and>
        batch_id (batch ownerData) \<noteq> p) \<longrightarrow>
      detachRecycledFromPreviousBatch queue item = Inr queue)"
proof -
  have 1: "recycled item \<and> previousBatch item = Some previous \<and> previous \<noteq> [] \<and>
    batches queue previous = Some batchData \<and>
    items queue (item_id item) = Some stored \<and>
    batches queue (batchId stored) = Some ownerData \<and>
    batch_id (batch ownerData) = previous \<longrightarrow>
      detachRecycledFromPreviousBatch queue item =
        Inr (queue\<lparr>batches := (batches queue)(previous \<mapsto>
               batchData\<lparr>batch := (batch batchData)\<lparr>batch_items :=
                  takeWhile (\<lambda>i. item_id i \<noteq> item_id item) (batch_items (batch batchData)) @
                  drop 1 (dropWhile (\<lambda>i. item_id i \<noteq> item_id item)
                            (batch_items (batch batchData)))\<rparr>\<rparr>)\<rparr>)"
    using splice_findIndex [of "\<lambda>i. item_id i = item_id item" "batch_items (batch batchData)"]
    by (simp add: detachRecycledFromPreviousBatch_def getBatchFromItemId_def
          getBatchDataFromItemId_def Let_def)
  have 2: "\<not> recycled item \<or> previousBatch item = None \<or> previousBatch item = Some [] \<or>
    (\<exists>p. previousBatch item = Some p \<and> batches queue p = None) \<or>
    (\<exists>p stored ownerData. previousBatch item = Some p \<and>
        items queue (item_id item) = Some stored \<and>
        batches queue (batchId stored) = Some ownerData \<and>
        batch_id (batch ownerData) \<noteq> p) \<longrightarrow>
      detachRecycledFromPreviousBatch queue item = Inr queue"
    by (auto simp: detachRecycledFromPreviousBatch_def getBatchFromItemId_def
          getBatchDataFromItemId_def split: option.splits)
  from 1 2 show ?thesis by blast
qed

text \<open>
  In \<open>recycledStore\<close> the stored item still belongs to the former batch and is
  detached from it; in \<open>reattachedStore\<close> it belongs to the new batch and nothing changes.
\<close>

theorem detachRecycledFromPreviousBatch_detaches_witness:
  "detachRecycledFromPreviousBatch recycledStore recycledItem =
     Inr (recycledStore\<lparr>batches := [''batch-1'' \<mapsto>
            mkBatchData ''batch-1'' [mkItem ''item-2'' ''batch-1'' FILE_UPLOADING] BATCH_UPLOADING]\<rparr>) \<and>
   detachRecycledFromPreviousBatch reattachedStore recycledItem = Inr reattachedStore"
proof -
  have 1: "detachRecycledFromPreviousBatch recycledStore recycledItem =
     Inr (recycledStore\<lparr>batches := [''batch-1'' \<mapsto>
            mkBatchData ''batch-1'' [mkItem ''item-2'' ''batch-1'' FILE_UPLOADING] BATCH_UPLOADING]\<rparr>)"
    using detachRecycledFromPreviousBatch_detaches [of recycledItem "''batch-1''" recycledStore
        "mkBatchData ''batch-1''
           [mkItem ''item-1'' ''batch-1'' FILE_ABORTED, mkItem ''item-2'' ''batch-1'' FILE_UPLOADING]
           BATCH_UPLOADING"
        "mkItem ''item-1'' ''batch-1'' FILE_ABORTED"
        "mkBatchData ''batch-1''
           [mkItem ''item-1'' ''batch-1'' FILE_ABORTED, mkItem ''item-2'' ''batch-1'' FILE_UPLOADING]
           BATCH_UPLOADING"]
    by (simp add: recycledStore_def recycledItem_def mkItem_def mkBatchData_def)
  have 2: "detachRecycledFromPreviousBatch reattachedStore recycledItem = Inr reattachedStore"
  proof -
    have "\<exists>p stored ownerData. previousBatch recycledItem = Some p \<and>
        items reattachedStore (item_id recycledItem) = Some stored \<and>
        batches reattachedStore (batchId stored) = Some ownerData \<and>
        batch_id (batch ownerData) \<noteq> p"
      by (simp add: reattachedStore_def recycledItem_def mkItem_def mkBatchData_def)
    then show ?thesis
      using detachRecycledFromPreviousBatch_detaches [of recycledItem _ reattachedStore] by blast
  qed
  from 1 2 show ?thesis by blast
qed

text \<open>
  The claim as the spec words it has the removal happen whenever the stale previous batch
  still lists the item, also when the item is already owned by a new batch. In
  \<open>reattachedStore\<close> the item is recycled, its previous batch is in the store and lists
  an item with its id, the store's record of the id belongs to the new batch, and the
  operation leaves the store as it is.
\<close>

theorem detachRecycledFromPreviousBatch_owned_counterexample:
  "recycled recycledItem \<and> previousBatch recycledItem = Some ''batch-1'' \<and>
   batches reattachedStore ''batch-1'' =
     Some (mkBatchData ''batch-1''
        [mkItem ''item-1'' ''batch-1'' FILE_ABORTED, mkItem ''item-2'' ''batch-1'' FILE_UPLOADING]
        BATCH_UPLOADING) \<and>
   item_id (mkItem ''item-1'' ''batch-1'' FILE_ABORTED) = item_id recycledItem \<and>
   detachRecycledFromPreviousBatch reattachedStore recycledItem = Inr reattachedStore"
  by (simp add: detachRecycledFromPreviousBatch_def getBatchFromItemId_def
        getBatchDataFromItemId_def reattachedStore_def recycledItem_def mkItem_def mkBatchData_def)

section \<open>Queue state store: progress notifications\<close>

text \<open>
  Claim C8. For every progress notification (item, completed, loaded): when the store's
  item mapping tracks the item's id, the handler sets the \<open>loaded\<close> and \<open>completed\<close>
  counters of exactly that stored item to the notified values, every other item, every
  other field of the item and the rest of the store staying as they were, and then
  triggers one item-progress event carrying the updated item as the new snapshot holds
  it; when the id is not tracked, the store is unchanged, no event is triggered and no
  error is raised.
\<close>

theorem onSenderProgress_tracked:
  "(items state (item_id item) = Some stateItem \<longrightarrow>
      onSenderProgress state item completed' loaded' =
        Inr (state\<lparr>items := (items state)(item_id item \<mapsto>
                      stateItem\<lparr>loaded := loaded', completed := completed'\<rparr>)\<rparr>,
             [(ITEM_PROGRESS,
               ItemPayload (Some (stateItem\<lparr>loaded := loaded', completed := completed'\<rparr>)))])) \<and>
   (items state (item_id item) = None \<longrightarrow>
      onSenderProgress state item completed' loaded' = Inr (state, []))"
  by (simp add: onSenderProgress_def Let_def)

text \<open>
  On \<open>finishedStore\<close>: a notification for the tracked \<open>item-3\<close> updates its counters,
  one for the unknown \<open>item-9\<close> is dropped.
\<close>

theorem onSenderProgress_tracked_witness:
  "onSenderProgress finishedStore (mkItem ''item-3'' ''batch-2'' FILE_UPLOADING) 50 1024 =
     Inr (finishedStore\<lparr>items := (items finishedStore)(''item-3'' \<mapsto>
             (mkItem ''item-3'' ''batch-2'' FILE_ADDED)\<lparr>loaded := 1024, completed := 50\<rparr>)\<rparr>,
          [(ITEM_PROGRESS,
            ItemPayload (Some ((mkItem ''item-3'' ''batch-2'' FILE_ADDED)
                                 \<lparr>loaded := 1024, completed := 50\<rparr>)))]) \<and>
   onSenderProgress finishedStore (mkItem ''item-9'' ''batch-2'' FILE_UPLOADING) 50 1024 =
     Inr (finishedStore, [])"
proof -
  have 1: "items finishedStore (item_id (mkItem ''item-3'' ''batch-2'' FILE_UPLOADING)) =
      Some (mkItem ''item-3'' ''batch-2'' FILE_ADDED)"
    by (simp add: finishedStore_def mkItem_def)
  have 2: "items finishedStore (item_id (mkItem ''item-9'' ''batch-2'' FILE_UPLOADING)) = None"
    by (simp add: finishedStore_def mkItem_def)
  show ?thesis
    using onSenderProgress_tracked [of finishedStore "mkItem ''item-3'' ''batch-2'' FILE_UPLOADING"
        "mkItem ''item-3'' ''batch-2'' FILE_ADDED" 50 1024] 1
      onSenderProgress_tracked [of finishedStore "mkItem ''item-9'' ''batch-2'' FILE_UPLOADING" _ 50 1024] 2
    by (simp add: mkItem_def)
qed

section \<open>Chunked sender: the chunk that cannot be sliced\<close>

lemma getFreshChunk_updateChunk:
  "getFreshChunk (updateChunk chunkedState chunk (\<lambda>fresh. fresh\<lparr>data := d\<rparr>)) chunk =
     map_option (\<lambda>fresh. fresh\<lparr>data := d\<rparr>) (getFreshChunk chunkedState chunk)"
proof -
  have "find (\<lambda>c. chunk_id c = k) (map (\<lambda>c. if chunk_id c = k then c\<lparr>data := d\<rparr> else c) cs) =
        map_option (\<lambda>fresh. fresh\<lparr>data := d\<rparr>) (find (\<lambda>c. chunk_id c = k) cs)" for k and cs :: "Chunk list"
    by (induction cs) auto
  then show ?thesis by (simp add: getFreshChunk_def updateChunk_def)
qed


lemma sendChunk_unsliced:
  assumes "data chunk = None" and "getFreshChunk chunkedState chunk = Some c"
      and "getChunkDataFromFile (item_file item) (start chunk) (chunk_end chunk) = None"
  shows "sendChunk getChunkDataFromFile xhrSend trigger' chunk chunkedState item =
     (updateChunk chunkedState chunk (\<lambda>fresh. fresh\<lparr>data := None\<rparr>),
      Inl (ChunkedSendError ''chunk failure - failed to slice''))"
  using assms by (simp add: sendChunk_def Let_def getFreshChunk_updateChunk)

text \<open>
  Claim C2, as the code has it. For every chunk passed without data whose slice of the
  item's file over the chunk's byte range yields no data, sendChunk throws
  ChunkedSendError("chunk failure - failed to slice") synchronously to its caller: it
  issues no interception, makes no call to the transport and hands back no send result.
  The exception is thrown exactly when the fresh chunk has no data after the slicing step.
\<close>

theorem sendChunk_slice_failure_throws:
  "(data chunk = None \<and> getFreshChunk chunkedState chunk \<noteq> None \<and>
    getChunkDataFromFile (item_file item) (start chunk) (chunk_end chunk) = None \<longrightarrow>
      snd (sendChunk getChunkDataFromFile xhrSend trigger' chunk chunkedState item) =
        Inl (ChunkedSendError ''chunk failure - failed to slice'')) \<and>
   (snd (sendChunk getChunkDataFromFile xhrSend trigger' chunk chunkedState item) =
        Inl (ChunkedSendError ''chunk failure - failed to slice'') \<longrightarrow>
      (\<exists>fresh. getFreshChunk
          (fst (sendChunk getChunkDataFromFile xhrSend trigger' chunk chunkedState item)) chunk =
            Some fresh \<and> data fresh = None))"
proof -
  have 1: "data chunk = None \<and> getFreshChunk chunkedState chunk \<noteq> None \<and>
    getChunkDataFromFile (item_file item) (start chunk) (chunk_end chunk) = None \<longrightarrow>
      snd (sendChunk getChunkDataFromFile xhrSend trigger' chunk chunkedState item) =
        Inl (ChunkedSendError ''chunk failure - failed to slice'')"
    by (auto simp: sendChunk_unsliced)
  have 2: "snd (sendChunk getChunkDataFromFile xhrSend trigger' chunk chunkedState item) =
        Inl (ChunkedSendError ''chunk failure - failed to slice'') \<longrightarrow>
      (\<exists>fresh. getFreshChunk
          (fst (sendChunk getChunkDataFromFile xhrSend trigger' chunk chunkedState item)) chunk =
            Some fresh \<and> data fresh = None)"
    by (auto simp: sendChunk_def Let_def split: option.splits if_splits)
  from 1 2 show ?thesis by blast
qed

theorem sendChunk_slice_failure_throws_witness:
  "snd (sendChunk sliceNothing exampleXhrSend (\<lambda>eventData. Inr NoUpdate) firstChunk chunkedExample
          uploadingItem) =
     Inl (ChunkedSendError ''chunk failure - failed to slice'')"
proof -
  have "data firstChunk = None \<and> getFreshChunk chunkedExample firstChunk \<noteq> None \<and>
     sliceNothing (item_file uploadingItem) (start firstChunk) (chunk_end firstChunk) = None"
    by (simp add: firstChunk_def getFreshChunk_def chunkedExample_def sliceNothing_def)
  then show ?thesis
    using sendChunk_slice_failure_throws [of firstChunk chunkedExample sliceNothing uploadingItem
        exampleXhrSend "\<lambda>eventData. Inr NoUpdate"]
    by blast
qed

text \<open>
  The claim as the spec words it has the failure surface as a rejected send, never as an
  exception thrown to the caller. With a slicer that yields no data, sendChunk leaves
  the chunked state and throws (\<open>Inl\<close>); a rejected send would be a result handed back
  (\<open>Inr\<close>) whose request rejects.
\<close>

theorem sendChunk_rejected_send_counterexample:
  "sendChunk sliceNothing exampleXhrSend (\<lambda>eventData. Inr NoUpdate) firstChunk chunkedExample
      uploadingItem =
     (chunkedExample, Inl (ChunkedSendError ''chunk failure - failed to slice''))"
  by (simp add: sendChunk_def Let_def updateChunk_def getFreshChunk_def chunkedExample_def
        firstChunk_def secondChunk_def sliceNothing_def)

section \<open>Chunked sender: slicing once, sending the fresh chunk\<close>






section \<open>Chunked sender: the answer of the chunk-start listener\<close>




section \<open>Chunked sender: abort\<close>

lemma sendChunk_abort_fulfilled:
  "settled p = Some (Inr handle) \<Longrightarrow> sendChunk_abort p w = (True, p, snd (abort handle w))"
  by (simp add: sendChunk_abort_def promise_then_def)

lemma sendChunk_abort_pending:
  "settled p = None \<Longrightarrow>
     sendChunk_abort p w =
       (True, p\<lparr>reactions := reactions p @ [\<lambda>result w0. snd (abort result w0)]\<rparr>, w)"
  by (simp add: sendChunk_abort_def promise_then_def)

lemma sendChunk_abort_true: "fst (sendChunk_abort p w) = True"
  by (simp add: sendChunk_abort_def promise_then_def split: option.splits sum.splits)

text \<open>
  Claim C9. For every chunk send, the abort handed back answers true at once, whatever
  the state of the send. Once the transport handle exists (the promise
  \<open>chunkXhrRequest\<close> is fulfilled with it), the abort is forwarded to the handle's own
  abort. An abort requested before the handle exists changes nothing in the transport
  and is queued as a reaction on the pending promise; when the promise is then fulfilled
  with the handle, the handle's abort is invoked, after the reactions queued earlier, so
  the request is not lost. The \<open>abort\<close> of the send result that sendChunk hands back is
  this operation.
\<close>

theorem sendChunk_abort_forwards:
  "fst (sendChunk_abort p w) = True \<and>
   (settled p = Some (Inr handle) \<longrightarrow>
      sendChunk_abort p w = (True, p, snd (abort handle w))) \<and>
   (settled p = None \<longrightarrow>
      fst (snd (sendChunk_abort p w)) =
        p\<lparr>reactions := reactions p @ [\<lambda>result w0. snd (abort result w0)]\<rparr> \<and>
      snd (snd (sendChunk_abort p w)) = w \<and>
      promise_settle (fst (snd (sendChunk_abort p w))) (Inr handle) w' =
        (\<lparr>settled = Some (Inr handle), reactions = []\<rparr>,
         snd (abort handle (fold (\<lambda>reaction. reaction handle) (reactions p) w')))) \<and>
   (snd (sendChunk getChunkDataFromFile xhrSend trigger' chunk chunkedState item) =
      Inr (outcome, result) \<longrightarrow>
      abort result (p, w) = (True, snd (sendChunk_abort p w)))"
proof -
  have 3: "settled p = None \<longrightarrow>
      fst (snd (sendChunk_abort p w)) =
        p\<lparr>reactions := reactions p @ [\<lambda>result w0. snd (abort result w0)]\<rparr> \<and>
      snd (snd (sendChunk_abort p w)) = w \<and>
      promise_settle (fst (snd (sendChunk_abort p w))) (Inr handle) w' =
        (\<lparr>settled = Some (Inr handle), reactions = []\<rparr>,
         snd (abort handle (fold (\<lambda>reaction. reaction handle) (reactions p) w')))"
    by (simp add: sendChunk_abort_pending promise_settle_def)
  have 4: "snd (sendChunk getChunkDataFromFile xhrSend trigger' chunk chunkedState item) =
      Inr (outcome, result) \<longrightarrow>
      abort result (p, w) = (True, snd (sendChunk_abort p w))"
    by (auto simp: sendChunk_def Let_def sendChunk_abort_def split: option.splits if_splits prod.splits)
  from 3 4 show ?thesis
    using sendChunk_abort_true [of p w] sendChunk_abort_fulfilled [of p handle w] by blast
qed

text \<open>
  On the example transport, whose state counts the aborts received: an abort after the
  handle exists reaches the transport at once; an abort on the pending promise reaches it
  when the promise is fulfilled; the abort of the result that sendChunk hands back
  answers true.
\<close>

theorem sendChunk_abort_forwards_witness:
  "sendChunk_abort \<lparr>settled = Some (Inr exampleHandle), reactions = []\<rparr> 0 =
     (True, \<lparr>settled = Some (Inr exampleHandle), reactions = []\<rparr>, 1) \<and>
   snd (snd (sendChunk_abort pendingRequest 0)) = 0 \<and>
   promise_settle (fst (snd (sendChunk_abort pendingRequest 0))) (Inr exampleHandle) 0 =
     (\<lparr>settled = Some (Inr exampleHandle), reactions = []\<rparr>, 1) \<and>
   map_sum id (\<lambda>(outcome, result). fst (abort result (pendingRequest, 0)))
     (snd (sendChunk sliceBytes exampleXhrSend (\<lambda>eventData. Inr NoUpdate) secondChunk
             chunkedExample uploadingItem)) = Inr True"
proof -
  have f: "settled \<lparr>settled = Some (Inr exampleHandle), reactions = []\<rparr> = Some (Inr exampleHandle)"
    by simp
  have n: "settled pendingRequest = None" by (simp add: pendingRequest_def)
  have a: "snd (abort exampleHandle 0) = 1" by (simp add: exampleHandle_def exampleXhrSend_def)
  have r: "fold (\<lambda>reaction. reaction exampleHandle) (reactions pendingRequest) 0 = (0::nat)"
    by (simp add: pendingRequest_def)
  have 1: "sendChunk_abort \<lparr>settled = Some (Inr exampleHandle), reactions = []\<rparr> 0 =
     (True, \<lparr>settled = Some (Inr exampleHandle), reactions = []\<rparr>, snd (abort exampleHandle 0))"
    using sendChunk_abort_forwards [where p = "\<lparr>settled = Some (Inr exampleHandle), reactions = []\<rparr>"
        and handle = exampleHandle and w = 0] f
    by blast
  have 2: "snd (snd (sendChunk_abort pendingRequest 0)) = 0 \<and>
     promise_settle (fst (snd (sendChunk_abort pendingRequest 0))) (Inr exampleHandle) 0 =
       (\<lparr>settled = Some (Inr exampleHandle), reactions = []\<rparr>,
        snd (abort exampleHandle
               (fold (\<lambda>reaction. reaction exampleHandle) (reactions pendingRequest) 0)))"
    using sendChunk_abort_forwards [where p = pendingRequest and handle = exampleHandle
        and w = 0 and w' = 0] n
    by blast
  obtain outcome result where
    s: "snd (sendChunk sliceBytes exampleXhrSend (\<lambda>eventData. Inr NoUpdate) secondChunk
               chunkedExample uploadingItem) = Inr (outcome, result)"
    by (simp add: sendChunk_def Let_def getFreshChunk_def chunkedExample_def firstChunk_def
          secondChunk_def)
  have "abort result (pendingRequest, 0) = (True, snd (sendChunk_abort pendingRequest 0))"
    using sendChunk_abort_forwards [where p = pendingRequest and w = 0
        and getChunkDataFromFile = sliceBytes and xhrSend = exampleXhrSend
        and trigger' = "\<lambda>eventData. Inr NoUpdate" and chunk = secondChunk
        and chunkedState = chunkedExample and item = uploadingItem
        and outcome = outcome and result = result] s
    by blast
  then have 3: "map_sum id (\<lambda>(outcome, result). fst (abort result (pendingRequest, 0)))
     (snd (sendChunk sliceBytes exampleXhrSend (\<lambda>eventData. Inr NoUpdate) secondChunk
             chunkedExample uploadingItem)) = Inr True"
    unfolding s by simp
  from 1 2 3 show ?thesis by (simp add: a r)
qed

end
